theory Spec2Isabelle
  imports Main
begin

section \<open>Job table of the two shells (tsh.c and hfsh.cpp)\<close>

text \<open>
  Both shells keep a global array \<^verbatim>\<open>struct job_t jobs[MAXJOBS]\<close> and a global counter
  \<^verbatim>\<open>nextjid\<close>. The helper routines are the same in both files except for the
  capacity (16 in tsh.c, 256 in hfsh.cpp), for \<^verbatim>\<open>clearjob\<close> (tsh.c also empties the
  command line) and for the verbose message of \<^verbatim>\<open>addjob\<close> (tsh.c only). The array is a
  list whose length is the capacity. \<^verbatim>\<open>pid_t\<close> and \<^verbatim>\<open>int\<close> are 32-bit signed integers,
  modelled by \<^typ>\<open>int\<close> with the wrap-around written out at the two places that
  compute with them, \<^verbatim>\<open>nextjid++\<close> and \<^verbatim>\<open>maxjid(jobs) + 1\<close>. C leaves signed overflow
  undefined; the two's complement result is what the compiled shells compute.
\<close>

datatype shell = Tsh | Hfsh

text \<open>The value of a C \<^verbatim>\<open>int\<close> expression whose exact result is \<open>x\<close>.\<close>

definition int32 :: "int \<Rightarrow> int" where
  "int32 x = (x + 2147483648) mod 4294967296 - 2147483648"

definition MAXJOBS :: "shell \<Rightarrow> int" where
  "MAXJOBS sh = (case sh of Tsh \<Rightarrow> 16 | Hfsh \<Rightarrow> 256)"

definition UNDEF :: int where "UNDEF = 0"
definition FG :: int where "FG = 1"
definition BG :: int where "BG = 2"
definition ST :: int where "ST = 3"

record job_t =
  pid :: int
  jid :: int
  state :: int
  cmdline :: string

record shell_state =
  jobs :: "job_t list"
  nextjid :: int
  verbose :: bool

subsection \<open>Formatted output\<close>

text \<open>\<^verbatim>\<open>printf("%d")\<close>: the decimal digits of an integer, with a minus sign when negative.\<close>

fun digits10 :: "nat \<Rightarrow> string" where
  "digits10 n =
     (if n < 10 then [''0123456789'' ! n]
      else digits10 (n div 10) @ [''0123456789'' ! (n mod 10)])"

declare digits10.simps [simp del]

definition dec :: "int \<Rightarrow> string" where
  "dec i = (if i < 0 then CHR ''-'' # digits10 (nat (- i)) else digits10 (nat i))"

definition nl :: string where
  "nl = [CHR 0x0A]"

subsection \<open>clearjob, initjobs, maxjid\<close>

text \<open>tsh.c clears all four fields; hfsh.cpp leaves \<^verbatim>\<open>cmdline\<close> as it is.\<close>

definition clearjob :: "shell \<Rightarrow> job_t \<Rightarrow> job_t" where
  "clearjob sh j =
     (case sh of
        Tsh \<Rightarrow> j\<lparr>pid := 0, jid := 0, state := UNDEF, cmdline := []\<rparr>
      | Hfsh \<Rightarrow> j\<lparr>pid := 0, jid := 0, state := UNDEF\<rparr>)"

definition initjobs :: "shell \<Rightarrow> job_t list \<Rightarrow> job_t list" where
  "initjobs sh js = map (clearjob sh) js"

text \<open>
  The state at start-up: the zero-initialised globals (after \<^verbatim>\<open>initjobs\<close> in tsh.c),
  \<^verbatim>\<open>nextjid = 1\<close>, and the \<^verbatim>\<open>-v\<close> flag as given on the command line.
\<close>

definition zero_job :: job_t where
  "zero_job = \<lparr>pid = 0, jid = 0, state = 0, cmdline = []\<rparr>"

definition init_state :: "shell \<Rightarrow> bool \<Rightarrow> shell_state" where
  "init_state sh v =
     \<lparr>jobs = initjobs sh (replicate (nat (MAXJOBS sh)) zero_job), nextjid = 1, verbose = v\<rparr>"

fun maxjid_loop :: "job_t list \<Rightarrow> int \<Rightarrow> int" where
  "maxjid_loop [] mx = mx"
| "maxjid_loop (j # js) mx = maxjid_loop js (if jid j > mx then jid j else mx)"

definition maxjid :: "job_t list \<Rightarrow> int" where
  "maxjid js = maxjid_loop js 0"

subsection \<open>addjob\<close>

text \<open>
  The loop of \<^verbatim>\<open>addjob\<close> over the slots: the first slot with \<^verbatim>\<open>pid == 0\<close> takes the
  job and the counter is incremented, going back to 1 once it is above \<^verbatim>\<open>MAXJOBS\<close>.
  The result is the new array, the new counter and what was printed; \<open>None\<close> when the
  loop ends without a free slot.
\<close>

fun addjob_loop ::
  "shell \<Rightarrow> bool \<Rightarrow> int \<Rightarrow> job_t list \<Rightarrow> int \<Rightarrow> int \<Rightarrow> string
     \<Rightarrow> (job_t list \<times> int \<times> string list) option" where
  "addjob_loop sh vb nj [] p st cmd = None"
| "addjob_loop sh vb nj (j # js) p st cmd =
     (if pid j = 0 then
        Some (j\<lparr>pid := p, state := st, jid := nj, cmdline := cmd\<rparr> # js,
              (if int32 (nj + 1) > MAXJOBS sh then 1 else int32 (nj + 1)),
              (if sh = Tsh \<and> vb
               then [''Added job ['' @ dec nj @ ''] '' @ dec p @ '' '' @ cmd @ nl]
               else []))
      else
        (case addjob_loop sh vb nj js p st cmd of
           None \<Rightarrow> None
         | Some (js', r) \<Rightarrow> Some (j # js', r)))"

text \<open>\<^verbatim>\<open>addjob\<close> returns 1 or 0, the state it leaves and the lines it prints.\<close>

definition addjob ::
  "shell \<Rightarrow> shell_state \<Rightarrow> int \<Rightarrow> int \<Rightarrow> string \<Rightarrow> int \<times> shell_state \<times> string list" where
  "addjob sh s p st cmd =
     (if p < 1 then (0, s, [])
      else
        (case addjob_loop sh (verbose s) (nextjid s) (jobs s) p st cmd of
           Some (js', nj', out) \<Rightarrow> (1, s\<lparr>jobs := js', nextjid := nj'\<rparr>, out)
         | None \<Rightarrow> (0, s, [''Tried to create too many jobs'' @ nl])))"

subsection \<open>deletejob\<close>

fun deletejob_loop :: "shell \<Rightarrow> job_t list \<Rightarrow> int \<Rightarrow> job_t list option" where
  "deletejob_loop sh [] p = None"
| "deletejob_loop sh (j # js) p =
     (if pid j = p then Some (clearjob sh j # js)
      else (case deletejob_loop sh js p of None \<Rightarrow> None | Some js' \<Rightarrow> Some (j # js')))"

definition deletejob :: "shell \<Rightarrow> shell_state \<Rightarrow> int \<Rightarrow> int \<times> shell_state" where
  "deletejob sh s p =
     (if p < 1 then (0, s)
      else
        (case deletejob_loop sh (jobs s) p of
           Some js' \<Rightarrow> (1, s\<lparr>jobs := js', nextjid := int32 (maxjid js' + 1)\<rparr>)
         | None \<Rightarrow> (0, s)))"

subsection \<open>Lookups\<close>

fun fgpid :: "job_t list \<Rightarrow> int" where
  "fgpid [] = 0"
| "fgpid (j # js) = (if state j = FG then pid j else fgpid js)"

text \<open>A pointer into the array is the index of the slot; \<open>None\<close> is \<^verbatim>\<open>NULL\<close>.\<close>

fun find_slot :: "(job_t \<Rightarrow> bool) \<Rightarrow> job_t list \<Rightarrow> nat option" where
  "find_slot P [] = None"
| "find_slot P (j # js) =
     (if P j then Some 0 else (case find_slot P js of None \<Rightarrow> None | Some i \<Rightarrow> Some (Suc i)))"

definition getjobpid :: "job_t list \<Rightarrow> int \<Rightarrow> nat option" where
  "getjobpid js p = (if p < 1 then None else find_slot (\<lambda>j. pid j = p) js)"

definition getjobjid :: "job_t list \<Rightarrow> int \<Rightarrow> nat option" where
  "getjobjid js i = (if i < 1 then None else find_slot (\<lambda>j. jid j = i) js)"

definition pid2jid :: "job_t list \<Rightarrow> int \<Rightarrow> int" where
  "pid2jid js p =
     (if p < 1 then 0
      else (case find_slot (\<lambda>j. pid j = p) js of None \<Rightarrow> 0 | Some i \<Rightarrow> jid (js ! i)))"

subsection \<open>Sequences of table operations\<close>

text \<open>
  A run of the table: each operation is one call of \<^verbatim>\<open>addjob\<close> or \<^verbatim>\<open>deletejob\<close>,
  whose return value the callers in both shells ignore.
\<close>

datatype table_op = Add int int string | Remove int

fun apply_op :: "shell \<Rightarrow> shell_state \<Rightarrow> table_op \<Rightarrow> shell_state" where
  "apply_op sh s (Add p st cmd) = fst (snd (addjob sh s p st cmd))"
| "apply_op sh s (Remove p) = snd (deletejob sh s p)"

definition run :: "shell \<Rightarrow> shell_state \<Rightarrow> table_op list \<Rightarrow> shell_state" where
  "run sh s ops = foldl (apply_op sh) s ops"

section \<open>The SIGCHLD handler\<close>

text \<open>
  What \<^verbatim>\<open>waitpid(-1, &status, WNOHANG | WUNTRACED)\<close> reports about a child: stopped by
  a signal (\<^verbatim>\<open>WIFSTOPPED\<close>), terminated by a signal (\<^verbatim>\<open>WIFSIGNALED\<close>, with
  \<^verbatim>\<open>WTERMSIG\<close>) or exited with a code (\<^verbatim>\<open>WIFEXITED\<close>). The signal numbers are those
  of Linux.
\<close>

datatype wstatus = WStopped int | WSignaled int | WExited int

definition SIGSTOP :: int where "SIGSTOP = 19"
definition SIGTSTP :: int where "SIGTSTP = 20"

text \<open>Writing or reading through the \<^verbatim>\<open>NULL\<close> that \<^verbatim>\<open>getjobpid\<close> returned ends the shell.\<close>

datatype fault = NullDereference

text \<open>
  The body of the handler's loop for one reaped child. The same text is in both files;
  the pointer \<^verbatim>\<open>current_job\<close> is used in the first two branches without a test.
\<close>

definition sigchld_reap ::
  "shell \<Rightarrow> shell_state \<Rightarrow> int \<Rightarrow> wstatus \<Rightarrow> fault + (shell_state \<times> string list)" where
  "sigchld_reap sh s p status =
     (let current_job = getjobpid (jobs s) p in
      case status of
        WStopped sig \<Rightarrow>
          (case current_job of
             None \<Rightarrow> Inl NullDereference
           | Some k \<Rightarrow>
               let s' = s\<lparr>jobs := (jobs s)[k := (jobs s ! k)\<lparr>state := ST\<rparr>]\<rparr>
               in Inr (s', [''Job ['' @ dec (pid2jid (jobs s') p) @ ''] ('' @ dec p
                            @ '') stopped by signal '' @ dec SIGTSTP @ nl]))
      | WSignaled sig \<Rightarrow>
          (case current_job of
             None \<Rightarrow> Inl NullDereference
           | Some k \<Rightarrow>
               Inr (snd (deletejob sh s p),
                    [''Job ['' @ dec (jid (jobs s ! k)) @ ''] ('' @ dec (pid (jobs s ! k))
                     @ '') terminated by signal '' @ dec sig @ nl]))
      | WExited code \<Rightarrow> Inr (snd (deletejob sh s p), []))"

text \<open>
  One run of the handler. The list holds what the successive calls of \<^verbatim>\<open>waitpid\<close>
  return; the loop ends at the first pid that is not positive, or when nothing is left to
  reap.
\<close>

fun sigchld_handler ::
  "shell \<Rightarrow> shell_state \<Rightarrow> (int \<times> wstatus) list \<Rightarrow> fault + (shell_state \<times> string list)" where
  "sigchld_handler sh s [] = Inr (s, [])"
| "sigchld_handler sh s ((p, status) # rest) =
     (if p > 0 then
        (case sigchld_reap sh s p status of
           Inl f \<Rightarrow> Inl f
         | Inr (s', out) \<Rightarrow>
             (case sigchld_handler sh s' rest of
                Inl f \<Rightarrow> Inl f
              | Inr (s'', out') \<Rightarrow> Inr (s'', out @ out')))
      else Inr (s, []))"

section \<open>The main flow: launching, waiting, bg and fg\<close>

text \<open>
  The argument of the builtins \<^verbatim>\<open>bg\<close> and \<^verbatim>\<open>fg\<close> of tsh.c after its text is read:
  missing; starting with \<^verbatim>\<open>%\<close> (the text, and the job id \<^verbatim>\<open>atoi\<close> reads after the
  \<^verbatim>\<open>%\<close>); starting with a digit (the pid \<^verbatim>\<open>atoi\<close> reads); anything else.
\<close>

datatype bgfg_arg = NoArg | JobId string int | ProcId int | BadArg

text \<open>
  The first half of \<^verbatim>\<open>do_bgfg\<close>: the tests of the argument and the lookup, which leave
  the pointer \<^verbatim>\<open>job_process\<close> (the index of a slot) or return after a message.
  \<open>fg\<close> is true for \<^verbatim>\<open>fg\<close>.
\<close>

definition do_bgfg_lookup ::
  "shell_state \<Rightarrow> bool \<Rightarrow> bgfg_arg \<Rightarrow> nat option \<times> string list" where
  "do_bgfg_lookup s fg a =
     (let name = (if fg then ''fg'' else ''bg'') in
      case a of
        NoArg \<Rightarrow> (None, [name @ '' command requires PID or %jobid argument'' @ nl])
      | JobId txt i \<Rightarrow>
          (case getjobjid (jobs s) i of
             None \<Rightarrow> (None, [txt @ '': No such job'' @ nl])
           | Some k \<Rightarrow> (Some k, []))
      | ProcId p \<Rightarrow>
          (case getjobpid (jobs s) p of
             None \<Rightarrow> (None, [''('' @ dec p @ ''): No such process'' @ nl])
           | Some k \<Rightarrow> (Some k, []))
      | BadArg \<Rightarrow> (None, [name @ '': argument must be a PID or %jobid'' @ nl]))"

text \<open>
  The second half, after \<^verbatim>\<open>kill(-job_process->pid, SIGCONT)\<close>: the store of the new
  state through the pointer, then for \<^verbatim>\<open>fg\<close> the pid read through it for \<^verbatim>\<open>waitfg\<close>, for
  \<^verbatim>\<open>bg\<close> the line printed from the record.
\<close>

definition do_bgfg_store ::
  "shell_state \<Rightarrow> bool \<Rightarrow> nat \<Rightarrow> shell_state \<times> int option \<times> string list" where
  "do_bgfg_store s fg k =
     (let s' = s\<lparr>jobs := (jobs s)[k := (jobs s ! k)\<lparr>state := (if fg then FG else BG)\<rparr>]\<rparr>;
          job = jobs s' ! k
      in if fg then (s', Some (pid job), [])
         else (s', None, [''['' @ dec (jid job) @ ''] ('' @ dec (pid job) @ '') '' @ cmdline job]))"

text \<open>
  Where the main flow is. \<open>Ready n md\<close>: it has \<open>n\<close> more stages of the current command
  to fork with mode \<open>md\<close> (\<open>n = 0\<close>: it reads the next line). \<open>Scan i p cmd n md\<close>: it is in
  the loop of \<^verbatim>\<open>addjob(jobs, p, md, cmd)\<close>, about to test slot \<open>i\<close>. \<open>StoreState\<close>,
  \<open>StoreJid\<close>, \<open>StoreCmd\<close>: it has found slot \<open>i\<close> free and stored the pid; the named
  store is the next. \<open>Enter p n md\<close>: \<^verbatim>\<open>addjob\<close> has returned, or \<^verbatim>\<open>fork\<close> has failed, and
  the parent is about to wait or to print. \<open>Waiting p n md\<close>: it is in the loop of
  \<^verbatim>\<open>waitfg(p)\<close>. \<open>Found fg k md\<close>: it is in \<^verbatim>\<open>do_bgfg\<close> and \<^verbatim>\<open>job_process\<close> points
  at slot \<open>k\<close>.
\<close>

datatype control =
    Ready nat int
  | Scan nat int string nat int
  | StoreState nat int string nat int
  | StoreJid nat int string nat int
  | StoreCmd nat int string nat int
  | Enter int nat int
  | Waiting int nat int
  | Found bool nat int

type_synonym config = "control \<times> shell_state"

text \<open>
  The entry of \<^verbatim>\<open>waitfg\<close>: it returns at once for pid 0 or when \<^verbatim>\<open>getjobpid\<close> finds no
  job; otherwise it loops while the pid is the one \<^verbatim>\<open>fgpid\<close> returns.
\<close>

definition waitfg_enter :: "job_t list \<Rightarrow> int \<Rightarrow> nat \<Rightarrow> int \<Rightarrow> control" where
  "waitfg_enter js p n md =
     (if p = 0 then Ready n md
      else if getjobpid js p \<noteq> None then Waiting p n md
      else Ready n md)"

text \<open>
  What happens to the shell, one event at a time.
  \<^item> \<open>Command k md\<close>: a command line with \<open>k\<close> stages and a mode is read (tsh.c: one
    stage, \<^verbatim>\<open>FG\<close> or \<^verbatim>\<open>BG\<close>; hfsh.cpp: as many stages as \<^verbatim>\<open>parse_tokens\<close> pushed, with the
    mode it left in the global, which is 0 until it is first set).
  \<^item> \<open>Forked p cmd\<close>: \<^verbatim>\<open>fork\<close> returns \<open>p\<close> in the parent, which calls \<^verbatim>\<open>addjob\<close>. In
    tsh.c \<^verbatim>\<open>eval\<close> has blocked SIGCHLD from before the fork until \<^verbatim>\<open>addjob\<close> has
    returned, so the whole call is one step. hfsh.cpp blocks nothing: its \<^verbatim>\<open>addjob\<close>
    proceeds statement by statement.
  \<^item> \<open>ForkFailed\<close>: \<^verbatim>\<open>fork\<close> returns \<open>-1\<close> (tsh.c exits; hfsh.cpp goes on to
    \<^verbatim>\<open>parent_tasks\<close>).
  \<^item> \<open>Next\<close>: the main flow runs its next statement inside \<^verbatim>\<open>addjob\<close>, \<^verbatim>\<open>do_bgfg\<close>,
    or before \<^verbatim>\<open>waitfg\<close>.
  \<^item> \<open>Poll\<close>: the loop of \<^verbatim>\<open>waitfg\<close> tests its condition.
  \<^item> \<open>Sigchld rs\<close>: the handler of SIGCHLD runs, in any place of the main flow where the
    signal is not blocked. A run of the handler that faults ends the shell: it has no
    next state.
  \<^item> \<open>Bgfg fg a\<close>: \<^verbatim>\<open>bg\<close> or \<^verbatim>\<open>fg\<close> is typed (tsh.c only); \<^verbatim>\<open>builtin_cmd\<close> runs \<^verbatim>\<open>do_bgfg\<close>
    with SIGCHLD unblocked, so the handler can run between the lookup and the store.
\<close>

datatype event =
    Command nat int
  | Forked int string
  | ForkFailed
  | Next
  | Poll
  | Sigchld "(int \<times> wstatus) list"
  | Bgfg bool bgfg_arg

fun step :: "shell \<Rightarrow> config \<Rightarrow> event \<Rightarrow> config option" where
  "step sh (Ready 0 md0, s) (Command k md) =
     (if k = 0 then None
      else if sh = Tsh then (if k = 1 \<and> (md = FG \<or> md = BG) then Some (Ready k md, s) else None)
      else (if md = UNDEF \<or> md = FG \<or> md = BG then Some (Ready k md, s) else None))"
| "step sh (Ready (Suc n) md, s) (Forked p cmd) =
     (if p < 1 then None
      else if sh = Tsh then Some (Enter p n md, fst (snd (addjob sh s p md cmd)))
      else Some (Scan 0 p cmd n md, s))"
| "step sh (Ready (Suc n) md, s) ForkFailed =
     (if sh = Tsh then None else Some (Enter (- 1) n md, s))"
| "step sh (Scan i p cmd n md, s) Next =
     (if i < length (jobs s) then
        (if pid (jobs s ! i) = 0
         then Some (StoreState i p cmd n md, s\<lparr>jobs := (jobs s)[i := (jobs s ! i)\<lparr>pid := p\<rparr>]\<rparr>)
         else Some (Scan (Suc i) p cmd n md, s))
      else Some (Enter p n md, s))"
| "step sh (StoreState i p cmd n md, s) Next =
     Some (StoreJid i p cmd n md, s\<lparr>jobs := (jobs s)[i := (jobs s ! i)\<lparr>state := md\<rparr>]\<rparr>)"
| "step sh (StoreJid i p cmd n md, s) Next =
     Some (StoreCmd i p cmd n md,
           s\<lparr>jobs := (jobs s)[i := (jobs s ! i)\<lparr>jid := nextjid s\<rparr>],
             nextjid := (if int32 (nextjid s + 1) > MAXJOBS sh then 1 else int32 (nextjid s + 1))\<rparr>)"
| "step sh (StoreCmd i p cmd n md, s) Next =
     Some (Enter p n md, s\<lparr>jobs := (jobs s)[i := (jobs s ! i)\<lparr>cmdline := cmd\<rparr>]\<rparr>)"
| "step sh (Enter p n md, s) Next =
     Some (if md = FG then waitfg_enter (jobs s) p n md else Ready n md, s)"
| "step sh (Waiting p n md, s) Poll =
     Some (if p = fgpid (jobs s) then Waiting p n md else Ready n md, s)"
| "step sh (c, s) (Sigchld rs) =
     (case sigchld_handler sh s rs of Inl f \<Rightarrow> None | Inr (s', out) \<Rightarrow> Some (c, s'))"
| "step sh (Ready 0 md, s) (Bgfg fg a) =
     (if sh = Tsh then
        (case fst (do_bgfg_lookup s fg a) of
           None \<Rightarrow> Some (Ready 0 md, s)
         | Some k \<Rightarrow> Some (Found fg k md, s))
      else None)"
| "step sh (Found fg k md, s) Next =
     (case do_bgfg_store s fg k of
        (s', Some p, out) \<Rightarrow> Some (waitfg_enter (jobs s') p 0 md, s')
      | (s', None, out) \<Rightarrow> Some (Ready 0 md, s'))"
| "step sh c e = None"

fun exec :: "shell \<Rightarrow> config \<Rightarrow> event list \<Rightarrow> config option" where
  "exec sh c [] = Some c"
| "exec sh c (e # es) = (case step sh c e of None \<Rightarrow> None | Some c' \<Rightarrow> exec sh c' es)"

text \<open>The shell as it starts: at the prompt, with the start-up state.\<close>

definition start :: "shell \<Rightarrow> bool \<Rightarrow> config" where
  "start sh v = (Ready 0 0, init_state sh v)"

text \<open>A slot as pid, job id and state.\<close>

definition slot :: "job_t \<Rightarrow> int \<times> int \<times> int" where
  "slot j = (pid j, jid j, state j)"

section \<open>Pipeline builder of hfsh.cpp\<close>

text \<open>
  \<^verbatim>\<open>parse_tokens\<close> works on the token array returned by \<^verbatim>\<open>gettoks\<close>: an array of
  string pointers ended by \<^verbatim>\<open>NULL\<close>, here a list of optional strings with \<open>None\<close> for
  \<^verbatim>\<open>NULL\<close>. It overwrites entries of that array with \<^verbatim>\<open>NULL\<close>, so the array is part
  of the result. The field \<^verbatim>\<open>command\<close> of a stage points into the array: it is the
  index it points at. The globals \<^verbatim>\<open>piped_command\<close>, \<^verbatim>\<open>pipe_commands\<close> and
  \<^verbatim>\<open>mode\<close> form the state of the builder.
\<close>

record piped =
  file_in :: "string option"
  file_out :: "string option"
  command :: "nat option"
  file_in_fd :: int
  file_out_fd :: int
  p_fd :: "int \<times> int"

record builder =
  piped_command :: piped
  pipe_commands :: "piped list"
  mode :: int

definition AMPERSAND :: string where "AMPERSAND = ''&''"
definition IN_REDIR :: string where "IN_REDIR = ''<''"
definition OUT_REDIR :: string where "OUT_REDIR = ''>''"
definition PIPE :: string where "PIPE = ''|''"

text \<open>The globals as the program starts, and \<^verbatim>\<open>reset_variables\<close>, run after each line.\<close>

definition initial_builder :: builder where
  "initial_builder =
     \<lparr>piped_command = \<lparr>file_in = None, file_out = None, command = None,
                         file_in_fd = 0, file_out_fd = 0, p_fd = (0, 1)\<rparr>,
      pipe_commands = [], mode = 0\<rparr>"

definition reset_variables :: "builder \<Rightarrow> builder" where
  "reset_variables b =
     b\<lparr>piped_command := (piped_command b)\<lparr>command := None, file_in := None, file_out := None,
                                            file_in_fd := - 1, file_out_fd := - 1\<rparr>,
       pipe_commands := []\<rparr>"

text \<open>
  The loop \<^verbatim>\<open>for(i = 0; argv[i] != NULL; i++)\<close>. A read at an index outside the array
  has no defined result in C++ and ends the model with \<open>None\<close>; it cannot happen on an
  array that ends with \<^verbatim>\<open>NULL\<close>.
\<close>

function parse_loop ::
  "nat \<Rightarrow> string option list \<Rightarrow> builder \<Rightarrow> (string option list \<times> builder) option" where
  "parse_loop i argv b =
     (if length argv \<le> i then None
      else
        (case argv ! i of
           None \<Rightarrow> Some (argv, b)
         | Some temp \<Rightarrow>
             (if temp = IN_REDIR then
                (if length argv \<le> i + 1 then None
                 else parse_loop (i + 1) (argv[i := None])
                        (b\<lparr>piped_command := (piped_command b)\<lparr>file_in := argv ! (i + 1)\<rparr>\<rparr>))
              else if temp = OUT_REDIR then
                (if length argv \<le> i + 1 then None
                 else parse_loop (i + 1) (argv[i := None])
                        (b\<lparr>piped_command := (piped_command b)\<lparr>file_out := argv ! (i + 1)\<rparr>\<rparr>))
              else if temp = PIPE then
                parse_loop (i + 1) (argv[i := None])
                  (b\<lparr>pipe_commands := pipe_commands b @ [piped_command b],
                     piped_command := (piped_command b)
                        \<lparr>command := Some (i + 1), file_in := None, file_out := None\<rparr>\<rparr>)
              else if length argv \<le> i + 1 then None
              else if argv ! (i + 1) = None then
                (if temp = AMPERSAND
                 then parse_loop (i + 1) (argv[i := None]) (b\<lparr>mode := BG\<rparr>)
                 else parse_loop (i + 1) argv (b\<lparr>mode := FG\<rparr>))
              else parse_loop (i + 1) argv b)))"
  by pat_completeness auto
termination
  by (relation "measure (\<lambda>(i, argv, b). length argv - i)") auto

declare parse_loop.simps [simp del]

definition parse_tokens ::
  "string option list \<Rightarrow> builder \<Rightarrow> (string option list \<times> builder) option" where
  "parse_tokens argv b =
     (case parse_loop 0 argv (b\<lparr>piped_command := (piped_command b)\<lparr>command := Some 0\<rparr>\<rparr>) of
        None \<Rightarrow> None
      | Some (argv', b') \<Rightarrow>
          Some (argv', b'\<lparr>pipe_commands := pipe_commands b' @ [piped_command b']\<rparr>))"

text \<open>
  What \<^verbatim>\<open>execvp\<close> sees as the argument vector of a stage: the entries of the array from
  the stage's \<^verbatim>\<open>command\<close> pointer up to the first \<^verbatim>\<open>NULL\<close>.
\<close>

definition stage_argv :: "string option list \<Rightarrow> piped \<Rightarrow> string list" where
  "stage_argv argv p =
     (case command p of
        None \<Rightarrow> []
      | Some k \<Rightarrow> map the (takeWhile (\<lambda>t. t \<noteq> None) (drop k argv)))"

text \<open>A stage as the launcher uses it: argument vector, input file, output file.\<close>

definition stages :: "string option list \<times> builder \<Rightarrow> (string list \<times> string option \<times> string option) list" where
  "stages r = map (\<lambda>p. (stage_argv (fst r) p, file_in p, file_out p)) (pipe_commands (snd r))"

section \<open>Properties of the job table\<close>

subsection \<open>Auxiliary facts\<close>

lemma int32_id: "- 2147483648 \<le> x \<Longrightarrow> x < 2147483648 \<Longrightarrow> int32 x = x"
  by (simp add: int32_def)

lemma clearjob_fields [simp]:
  "pid (clearjob sh j) = 0" "jid (clearjob sh j) = 0" "state (clearjob sh j) = UNDEF"
  by (cases sh; simp add: clearjob_def)+

lemma clearjob_zero_job: "clearjob sh zero_job = zero_job"
  by (cases sh) (simp_all add: clearjob_def zero_job_def UNDEF_def)

lemma jobs_init_state: "jobs (init_state sh v) = replicate (nat (MAXJOBS sh)) zero_job"
  by (simp add: init_state_def initjobs_def clearjob_zero_job)

lemma nextjid_init_state: "nextjid (init_state sh v) = 1"
  by (simp add: init_state_def)

lemma zero_job_fields: "pid zero_job = 0" "jid zero_job = 0" "state zero_job = 0"
  by (simp_all add: zero_job_def)

lemma addjob_loop_None:
  "(addjob_loop sh vb nj js p st cmd = None) = (\<forall>j \<in> set js. pid j \<noteq> 0)"
  by (induction js) (auto split: option.splits)

lemma addjob_loop_Some:
  "addjob_loop sh vb nj js p st cmd = Some (js', nj', out) \<Longrightarrow>
     \<exists>i < length js. pid (js ! i) = 0 \<and> (\<forall>k < i. pid (js ! k) \<noteq> 0)
       \<and> js' = js[i := (js ! i)\<lparr>pid := p, state := st, jid := nj, cmdline := cmd\<rparr>]
       \<and> nj' = (if int32 (nj + 1) > MAXJOBS sh then 1 else int32 (nj + 1))"
proof (induction js arbitrary: js')
  case Nil
  then show ?case by simp
next
  case (Cons j js)
  show ?case
  proof (cases "pid j = 0")
    case True
    with Cons.prems show ?thesis by (intro exI[of _ 0]) auto
  next
    case False
    with Cons.prems obtain js'' where
      rec: "addjob_loop sh vb nj js p st cmd = Some (js'', nj', out)" and js': "js' = j # js''"
      by (auto split: option.splits)
    from Cons.IH[OF rec] obtain i where i: "i < length js" "pid (js ! i) = 0"
      "\<forall>k < i. pid (js ! k) \<noteq> 0"
      "js'' = js[i := (js ! i)\<lparr>pid := p, state := st, jid := nj, cmdline := cmd\<rparr>]"
      "nj' = (if int32 (nj + 1) > MAXJOBS sh then 1 else int32 (nj + 1))" by blast
    have "\<forall>k < Suc i. pid ((j # js) ! k) \<noteq> 0"
      using False i(3) by (auto simp: less_Suc_eq_0_disj)
    with i js' show ?thesis by (intro exI[of _ "Suc i"]) auto
  qed
qed

lemma deletejob_loop_None:
  "(deletejob_loop sh js p = None) = (\<forall>j \<in> set js. pid j \<noteq> p)"
  by (induction js) (auto split: option.splits)

lemma deletejob_loop_Some:
  "deletejob_loop sh js p = Some js' \<Longrightarrow>
     \<exists>i < length js. pid (js ! i) = p \<and> (\<forall>k < i. pid (js ! k) \<noteq> p)
       \<and> js' = js[i := clearjob sh (js ! i)]"
proof (induction js arbitrary: js')
  case Nil
  then show ?case by simp
next
  case (Cons j js)
  show ?case
  proof (cases "pid j = p")
    case True
    with Cons.prems show ?thesis by (intro exI[of _ 0]) auto
  next
    case False
    with Cons.prems obtain js'' where
      rec: "deletejob_loop sh js p = Some js''" and js': "js' = j # js''"
      by (auto split: option.splits)
    from Cons.IH[OF rec] obtain i where i: "i < length js" "pid (js ! i) = p"
      "\<forall>k < i. pid (js ! k) \<noteq> p" "js'' = js[i := clearjob sh (js ! i)]" by blast
    have "\<forall>k < Suc i. pid ((j # js) ! k) \<noteq> p"
      using False i(3) by (auto simp: less_Suc_eq_0_disj)
    with i js' show ?thesis by (intro exI[of _ "Suc i"]) auto
  qed
qed

text \<open>The loop of \<^verbatim>\<open>maxjid\<close> computes the largest job id in the array, or 0.\<close>

lemma maxjid_loop_Max:
  "maxjid_loop js mx = Max (insert mx (jid ` set js))"
proof (induction js arbitrary: mx)
  case Nil
  then show ?case by simp
next
  case (Cons j js)
  have "Max (insert (max mx (jid j)) (jid ` set js)) =
        Max (insert mx (insert (jid j) (jid ` set js)))"
    by (cases "set js = {}") (auto simp: max.assoc max.commute max.left_commute)
  then show ?case using Cons.IH[of "if jid j > mx then jid j else mx"]
    by (simp add: max_def not_less split: if_splits)
qed

lemma maxjid_Max: "maxjid js = Max (insert 0 (jid ` set js))"
  by (simp add: maxjid_def maxjid_loop_Max)

lemma maxjid_loop_replicate_zero: "0 \<le> mx \<Longrightarrow> maxjid_loop (replicate k zero_job) mx = mx"
  by (induction k) (simp_all add: zero_job_def)

lemma init_state_four_slots:
  "\<exists>k. jobs (init_state sh v) =
        zero_job # zero_job # zero_job # zero_job # replicate k zero_job"
proof -
  have "nat (MAXJOBS sh) = Suc (Suc (Suc (Suc (nat (MAXJOBS sh) - 4))))"
    by (cases sh) (simp_all add: MAXJOBS_def)
  then have "replicate (nat (MAXJOBS sh)) zero_job =
      zero_job # zero_job # zero_job # zero_job # replicate (nat (MAXJOBS sh) - 4) zero_job"
    by (metis replicate_Suc)
  then show ?thesis by (auto simp: jobs_init_state)
qed

subsection \<open>addjob\<close>

text \<open>
  Claim C10. \<^verbatim>\<open>addjob\<close> called with a pid below 1 (the free-slot value 0 or a negative
  pid) returns 0 at once: nothing is printed, and the array, the counter and every other
  part of the state are as before, in both shells and in every state.
\<close>

theorem addjob_rejects_pid_below_one:
  "p < 1 \<Longrightarrow> addjob sh s p st cmd = (0, s, [])"
  by (simp add: addjob_def)

theorem addjob_rejects_pid_below_one_witness:
  "(0::int) < 1 \<and> addjob Hfsh (init_state Hfsh False) 0 FG ''sleep 5'' =
     (0, init_state Hfsh False, [])"
  using addjob_rejects_pid_below_one [of 0 Hfsh "init_state Hfsh False" FG "''sleep 5''"]
  by simp

text \<open>
  Claim C4. For a pid of at least 1, \<^verbatim>\<open>addjob\<close> fails exactly when no slot has pid 0.
  Then it returns 0 (it does not abort), prints the line "Tried to create too many jobs"
  and leaves the whole state as it was, so the job is not recorded. Otherwise it returns
  1: the first free slot receives the pid, the state, the command line and the current
  value of the counter as job id, and every other slot is unchanged. The counter becomes
  the 32-bit result of \<^verbatim>\<open>nextjid + 1\<close>, or 1 when that is above \<open>MAXJOBS\<close>; for every
  counter below the largest \<^verbatim>\<open>int\<close>, where C defines the increment, that is its
  successor, or 1 when the successor is above \<open>MAXJOBS\<close>.
\<close>

theorem addjob_fails_iff_table_full:
  assumes "1 \<le> p"
  shows "if (\<forall>j \<in> set (jobs s). pid j \<noteq> 0)
         then addjob sh s p st cmd = (0, s, [''Tried to create too many jobs'' @ nl])
         else (\<exists>i s' out. addjob sh s p st cmd = (1, s', out) \<and> i < length (jobs s)
             \<and> pid (jobs s ! i) = 0 \<and> (\<forall>k < i. pid (jobs s ! k) \<noteq> 0)
             \<and> jobs s' = (jobs s)[i := (jobs s ! i)
                   \<lparr>pid := p, state := st, jid := nextjid s, cmdline := cmd\<rparr>]
             \<and> nextjid s' =
                 (if int32 (nextjid s + 1) > MAXJOBS sh then 1 else int32 (nextjid s + 1))
             \<and> (- 2147483648 \<le> nextjid s \<and> nextjid s < 2147483647 \<longrightarrow>
                  nextjid s' = (if nextjid s + 1 > MAXJOBS sh then 1 else nextjid s + 1))
             \<and> verbose s' = verbose s)"
proof (cases "addjob_loop sh (verbose s) (nextjid s) (jobs s) p st cmd")
  case None
  then show ?thesis using assms addjob_loop_None[of sh "verbose s" "nextjid s" "jobs s" p st cmd]
    by (auto simp: addjob_def)
next
  case (Some r)
  obtain js' nj' out where r: "r = (js', nj', out)" by (cases r) auto
  have free: "\<not> (\<forall>j \<in> set (jobs s). pid j \<noteq> 0)"
    using Some addjob_loop_None[of sh "verbose s" "nextjid s" "jobs s" p st cmd] by simp
  from addjob_loop_Some[OF Some[unfolded r]] obtain i where i: "i < length (jobs s)"
      "pid (jobs s ! i) = 0" "\<forall>k < i. pid (jobs s ! k) \<noteq> 0"
      "js' = (jobs s)[i := (jobs s ! i)\<lparr>pid := p, state := st, jid := nextjid s, cmdline := cmd\<rparr>]"
      "nj' = (if int32 (nextjid s + 1) > MAXJOBS sh then 1 else int32 (nextjid s + 1))"
    by blast
  have a: "addjob sh s p st cmd = (1, s\<lparr>jobs := js', nextjid := nj'\<rparr>, out)"
    using Some r assms by (simp add: addjob_def)
  have b: "- 2147483648 \<le> nextjid s \<and> nextjid s < 2147483647 \<longrightarrow>
             nj' = (if nextjid s + 1 > MAXJOBS sh then 1 else nextjid s + 1)"
    using i(5) by (simp add: int32_id)
  have ok: "\<exists>i s' out. addjob sh s p st cmd = (1, s', out) \<and> i < length (jobs s)
             \<and> pid (jobs s ! i) = 0 \<and> (\<forall>k < i. pid (jobs s ! k) \<noteq> 0)
             \<and> jobs s' = (jobs s)[i := (jobs s ! i)
                   \<lparr>pid := p, state := st, jid := nextjid s, cmdline := cmd\<rparr>]
             \<and> nextjid s' =
                 (if int32 (nextjid s + 1) > MAXJOBS sh then 1 else int32 (nextjid s + 1))
             \<and> (- 2147483648 \<le> nextjid s \<and> nextjid s < 2147483647 \<longrightarrow>
                  nextjid s' = (if nextjid s + 1 > MAXJOBS sh then 1 else nextjid s + 1))
             \<and> verbose s' = verbose s"
    using a b i
    by (intro exI[of _ i] exI[of _ "s\<lparr>jobs := js', nextjid := nj'\<rparr>"] exI[of _ out]) simp
  show ?thesis unfolding if_not_P[OF free] by (rule ok)
qed

theorem addjob_fails_iff_table_full_witness:
  "(1::int) \<le> 42
   \<and> - 2147483648 \<le> nextjid (init_state Tsh False)
   \<and> nextjid (init_state Tsh False) < 2147483647
   \<and> fst (addjob Tsh (init_state Tsh False) 42 BG ''sleep 5 &'') = 1
   \<and> nextjid (fst (snd (addjob Tsh (init_state Tsh False) 42 BG ''sleep 5 &''))) = 2"
proof -
  have h: "(1::int) \<le> 42" by simp
  have free: "\<not> (\<forall>j \<in> set (jobs (init_state Tsh False)). pid j \<noteq> 0)"
    by (simp add: jobs_init_state MAXJOBS_def zero_job_fields)
  from addjob_fails_iff_table_full [OF h, of "init_state Tsh False" Tsh BG "''sleep 5 &''"]
  show ?thesis unfolding if_not_P[OF free]
    by (auto simp: nextjid_init_state MAXJOBS_def)
qed

text \<open>
  At the largest \<^verbatim>\<open>int\<close> the increment wraps to the smallest, which is not above
  \<open>MAXJOBS\<close>, and stays in the counter.
\<close>

lemma addjob_counter_at_int_max:
  "nextjid (fst (snd (addjob sh ((init_state sh v)\<lparr>nextjid := 2147483647\<rparr>) 42 BG cmd))) =
     - 2147483648"
proof -
  obtain k where k: "jobs (init_state sh v) =
      zero_job # zero_job # zero_job # zero_job # replicate k zero_job"
    using init_state_four_slots by blast
  have M: "MAXJOBS sh \<ge> 16" by (cases sh) (simp_all add: MAXJOBS_def)
  show ?thesis using M by (simp add: addjob_def k zero_job_fields int32_def)
qed

subsection \<open>deletejob\<close>

text \<open>
  Claim C5. \<^verbatim>\<open>deletejob\<close> with a pid below 1, or with a pid that no slot holds, returns
  0 and leaves the whole state as it was. On any call the array keeps its length, and a
  slot that differs afterwards is the first slot holding the pid (the one that is
  cleared): all other slots keep every field.
\<close>

theorem deletejob_absent_pid_is_noop:
  "((p < 1 \<or> (\<forall>j \<in> set (jobs s). pid j \<noteq> p)) \<longrightarrow> deletejob sh s p = (0, s))
   \<and> length (jobs (snd (deletejob sh s p))) = length (jobs s)
   \<and> (\<forall>i < length (jobs s). jobs (snd (deletejob sh s p)) ! i \<noteq> jobs s ! i \<longrightarrow>
         1 \<le> p \<and> pid (jobs s ! i) = p \<and> (\<forall>k < i. pid (jobs s ! k) \<noteq> p))"
proof (cases "deletejob_loop sh (jobs s) p")
  case None
  then show ?thesis using deletejob_loop_None[of sh "jobs s" p]
    by (auto simp: deletejob_def)
next
  case (Some js')
  from deletejob_loop_Some[OF Some] obtain i where i: "i < length (jobs s)"
      "pid (jobs s ! i) = p" "\<forall>k < i. pid (jobs s ! k) \<noteq> p"
      "js' = (jobs s)[i := clearjob sh (jobs s ! i)]" by blast
  have "\<not> (\<forall>j \<in> set (jobs s). pid j \<noteq> p)"
    using i(1,2) nth_mem by blast
  moreover have "\<forall>k < length (jobs s). js' ! k \<noteq> jobs s ! k \<longrightarrow> k = i"
    using i(4) by (metis nth_list_update_neq)
  ultimately show ?thesis using Some i
    by (auto simp: deletejob_def)
qed

lemma one_job_state:
  "run Tsh (init_state Tsh False) [Add 42 BG ''sleep 5 &''] =
     \<lparr>jobs = \<lparr>pid = 42, jid = 1, state = BG, cmdline = ''sleep 5 &''\<rparr> # replicate 15 zero_job,
      nextjid = 2, verbose = False\<rparr>"
  by (simp add: run_def addjob_def init_state_def initjobs_def clearjob_def UNDEF_def MAXJOBS_def
      numeral_eq_Suc zero_job_def int32_def)

theorem deletejob_absent_pid_is_noop_witness:
  "99 \<notin> pid ` set (jobs (run Tsh (init_state Tsh False) [Add 42 BG ''sleep 5 &'']))
   \<and> deletejob Tsh (run Tsh (init_state Tsh False) [Add 42 BG ''sleep 5 &'']) 99 =
       (0, run Tsh (init_state Tsh False) [Add 42 BG ''sleep 5 &''])
   \<and> jobs (snd (deletejob Tsh (run Tsh (init_state Tsh False) [Add 42 BG ''sleep 5 &'']) 42)) ! 0
       \<noteq> jobs (run Tsh (init_state Tsh False) [Add 42 BG ''sleep 5 &'']) ! 0
   \<and> pid (jobs (run Tsh (init_state Tsh False) [Add 42 BG ''sleep 5 &'']) ! 0) = 42"
proof -
  let ?s = "run Tsh (init_state Tsh False) [Add 42 BG ''sleep 5 &'']"
  have absent: "\<forall>j \<in> set (jobs ?s). pid j \<noteq> 99"
    by (simp add: one_job_state zero_job_fields)
  have changed: "jobs (snd (deletejob Tsh ?s 42)) ! 0 \<noteq> jobs ?s ! 0"
    by (simp add: one_job_state deletejob_def clearjob_def)
  have len: "0 < length (jobs ?s)" by (simp add: one_job_state)
  show ?thesis
    using deletejob_absent_pid_is_noop [of 99 ?s Tsh] deletejob_absent_pid_is_noop [of 42 ?s Tsh]
      absent changed len by (simp add: image_iff)
qed

lemma jids_after_clear:
  assumes "i < length js" and "jid c = 0"
  shows "insert 0 (jid ` set (js[i := c])) =
         insert 0 ((\<lambda>k. jid (js ! k)) ` ({..<length js} - {i}))"
proof -
  have "set (js[i := c]) = {js[i := c] ! k | k. k < length js}"
    by (simp add: set_conv_nth)
  also have "\<dots> = insert c ((\<lambda>k. js ! k) ` ({..<length js} - {i}))"
    using assms(1) by (auto simp: nth_list_update image_iff)
  finally show ?thesis using assms(2) by (simp add: image_image)
qed

text \<open>
  Claim C3. When \<^verbatim>\<open>deletejob\<close> is given a pid of at least 1 that some slot holds, it
  returns 1; the first slot holding the pid is cleared (pid 0, job id 0, state
  \<^verbatim>\<open>UNDEF\<close>) and every other slot is unchanged; the counter becomes the 32-bit result of
  adding 1 to the largest job id in the other slots (0 when none is positive), which is
  that sum itself whenever every job id is below the largest \<^verbatim>\<open>int\<close>. So from the
  start-up state, after three jobs are added (they get the ids 1, 2 and 3) and the second
  is deleted, its slot is free, the counter is 4 and the next job added, whatever its
  pid, takes that slot with id 4, in both shells.
\<close>

theorem deletejob_recomputes_counter:
  "(1 \<le> p \<and> (\<exists>j \<in> set (jobs s). pid j = p) \<longrightarrow>
      (\<exists>i s'. deletejob sh s p = (1, s')
         \<and> i < length (jobs s) \<and> pid (jobs s ! i) = p \<and> (\<forall>k < i. pid (jobs s ! k) \<noteq> p)
         \<and> length (jobs s') = length (jobs s)
         \<and> pid (jobs s' ! i) = 0 \<and> jid (jobs s' ! i) = 0 \<and> state (jobs s' ! i) = UNDEF
         \<and> (\<forall>k < length (jobs s). k \<noteq> i \<longrightarrow> jobs s' ! k = jobs s ! k)
         \<and> nextjid s' =
             int32 (Max (insert 0 ((\<lambda>k. jid (jobs s ! k)) ` ({..<length (jobs s)} - {i}))) + 1)
         \<and> ((\<forall>j \<in> set (jobs s). jid j < 2147483647) \<longrightarrow>
              nextjid s' =
                Max (insert 0 ((\<lambda>k. jid (jobs s ! k)) ` ({..<length (jobs s)} - {i}))) + 1)))
   \<and> (1 \<le> p1 \<and> 1 \<le> p2 \<and> 1 \<le> p3 \<and> 1 \<le> p4 \<and> p1 \<noteq> p2 \<longrightarrow>
       (let s3 = run sh (init_state sh v) [Add p1 st1 c1, Add p2 st2 c2, Add p3 st3 c3];
            s4 = run sh s3 [Remove p2];
            s5 = run sh s4 [Add p4 st4 c4]
        in map slot (take 3 (jobs s3)) = [(p1, 1, st1), (p2, 2, st2), (p3, 3, st3)]
           \<and> map slot (take 3 (jobs s4)) = [(p1, 1, st1), (0, 0, UNDEF), (p3, 3, st3)]
           \<and> nextjid s4 = 4
           \<and> fst (addjob sh s4 p4 st4 c4) = 1
           \<and> map slot (take 3 (jobs s5)) = [(p1, 1, st1), (p4, 4, st4), (p3, 3, st3)]))"
proof (intro conjI impI)
  assume a: "1 \<le> p \<and> (\<exists>j \<in> set (jobs s). pid j = p)"
  then obtain js' where l: "deletejob_loop sh (jobs s) p = Some js'"
    using deletejob_loop_None[of sh "jobs s" p] by (cases "deletejob_loop sh (jobs s) p") auto
  from deletejob_loop_Some[OF l] obtain i where i: "i < length (jobs s)"
      "pid (jobs s ! i) = p" "\<forall>k < i. pid (jobs s ! k) \<noteq> p"
      "js' = (jobs s)[i := clearjob sh (jobs s ! i)]" by blast
  let ?m = "Max (insert 0 ((\<lambda>k. jid (jobs s ! k)) ` ({..<length (jobs s)} - {i})))"
  let ?s' = "s\<lparr>jobs := js', nextjid := int32 (maxjid js' + 1)\<rparr>"
  have d: "deletejob sh s p = (1, ?s')" using a l by (simp add: deletejob_def)
  have m: "maxjid js' = ?m"
    unfolding maxjid_Max i(4) using jids_after_clear[OF i(1), of "clearjob sh (jobs s ! i)"]
    by simp
  have ge: "0 \<le> ?m" by simp
  have bound: "(\<forall>j \<in> set (jobs s). jid j < 2147483647) \<longrightarrow> ?m < 2147483647"
  proof
    assume b: "\<forall>j \<in> set (jobs s). jid j < 2147483647"
    have "\<forall>x \<in> insert 0 ((\<lambda>k. jid (jobs s ! k)) ` ({..<length (jobs s)} - {i})). x < 2147483647"
      using b by (auto simp: nth_mem)
    then show "?m < 2147483647" by (subst Max_less_iff) auto
  qed
  have exact: "(\<forall>j \<in> set (jobs s). jid j < 2147483647) \<longrightarrow> int32 (?m + 1) = ?m + 1"
    using bound ge by (auto intro!: int32_id)
  have others: "\<forall>k < length (jobs s). k \<noteq> i \<longrightarrow> js' ! k = jobs s ! k"
    using i(4) by simp
  show "\<exists>i s'. deletejob sh s p = (1, s')
         \<and> i < length (jobs s) \<and> pid (jobs s ! i) = p \<and> (\<forall>k < i. pid (jobs s ! k) \<noteq> p)
         \<and> length (jobs s') = length (jobs s)
         \<and> pid (jobs s' ! i) = 0 \<and> jid (jobs s' ! i) = 0 \<and> state (jobs s' ! i) = UNDEF
         \<and> (\<forall>k < length (jobs s). k \<noteq> i \<longrightarrow> jobs s' ! k = jobs s ! k)
         \<and> nextjid s' =
             int32 (Max (insert 0 ((\<lambda>k. jid (jobs s ! k)) ` ({..<length (jobs s)} - {i}))) + 1)
         \<and> ((\<forall>j \<in> set (jobs s). jid j < 2147483647) \<longrightarrow>
              nextjid s' =
                Max (insert 0 ((\<lambda>k. jid (jobs s ! k)) ` ({..<length (jobs s)} - {i}))) + 1)"
    using d i(1,2,3) others exact m
    by (intro exI[of _ i] exI[of _ ?s']) (simp add: i(4))
next
  assume a: "1 \<le> p1 \<and> 1 \<le> p2 \<and> 1 \<le> p3 \<and> 1 \<le> p4 \<and> p1 \<noteq> p2"
  obtain k where k: "jobs (init_state sh v) =
      zero_job # zero_job # zero_job # zero_job # replicate k zero_job"
    using init_state_four_slots by blast
  have M: "MAXJOBS sh \<ge> 16" by (cases sh) (simp_all add: MAXJOBS_def)
  show "(let s3 = run sh (init_state sh v) [Add p1 st1 c1, Add p2 st2 c2, Add p3 st3 c3];
            s4 = run sh s3 [Remove p2];
            s5 = run sh s4 [Add p4 st4 c4]
        in map slot (take 3 (jobs s3)) = [(p1, 1, st1), (p2, 2, st2), (p3, 3, st3)]
           \<and> map slot (take 3 (jobs s4)) = [(p1, 1, st1), (0, 0, UNDEF), (p3, 3, st3)]
           \<and> nextjid s4 = 4
           \<and> fst (addjob sh s4 p4 st4 c4) = 1
           \<and> map slot (take 3 (jobs s5)) = [(p1, 1, st1), (p4, 4, st4), (p3, 3, st3)])"
    using a M
    by (simp add: run_def addjob_def deletejob_def k nextjid_init_state zero_job_fields
        slot_def Let_def maxjid_def maxjid_loop_replicate_zero int32_def numeral_3_eq_3)
qed

lemma three_jobs_state:
  "run Tsh (init_state Tsh False) [Add 101 BG ''a'', Add 102 BG ''b'', Add 103 BG ''c''] =
     \<lparr>jobs = \<lparr>pid = 101, jid = 1, state = BG, cmdline = ''a''\<rparr>
             # \<lparr>pid = 102, jid = 2, state = BG, cmdline = ''b''\<rparr>
             # \<lparr>pid = 103, jid = 3, state = BG, cmdline = ''c''\<rparr> # replicate 13 zero_job,
      nextjid = 4, verbose = False\<rparr>"
  by (simp add: run_def addjob_def init_state_def initjobs_def clearjob_def UNDEF_def MAXJOBS_def
      numeral_eq_Suc zero_job_def int32_def)

theorem deletejob_recomputes_counter_witness:
  "(1::int) \<le> 103 \<and> (101::int) \<noteq> 102
   \<and> (\<exists>j \<in> set (jobs (run Tsh (init_state Tsh False)
            [Add 101 BG ''a'', Add 102 BG ''b'', Add 103 BG ''c''])). pid j = 103)
   \<and> \<not> (\<exists>j \<in> set (jobs (run Tsh (init_state Tsh False)
            [Add 101 BG ''a'', Add 102 BG ''b'', Add 103 BG ''c''])). 2147483647 \<le> jid j)
   \<and> fst (deletejob Tsh (run Tsh (init_state Tsh False)
            [Add 101 BG ''a'', Add 102 BG ''b'', Add 103 BG ''c'']) 103) = 1
   \<and> nextjid (run Tsh (init_state Tsh False)
        [Add 101 BG ''a'', Add 102 BG ''b'', Add 103 BG ''c'', Remove 103]) = 3
   \<and> nextjid (run Tsh (init_state Tsh False)
        [Add 101 BG ''a'', Add 102 BG ''b'', Add 103 BG ''c'', Remove 102]) = 4
   \<and> map slot (take 3 (jobs (run Tsh (init_state Tsh False)
        [Add 101 BG ''a'', Add 102 BG ''b'', Add 103 BG ''c'', Remove 102, Add 102 FG ''d'']))) =
       [(101, 1, BG), (102, 4, FG), (103, 3, BG)]"
proof -
  let ?s3 = "run Tsh (init_state Tsh False) [Add 101 BG ''a'', Add 102 BG ''b'', Add 103 BG ''c'']"
  have d: "1 \<le> (101::int) \<and> 1 \<le> (102::int) \<and> 1 \<le> (103::int) \<and> 1 \<le> (102::int)
           \<and> (101::int) \<noteq> 102" by simp
  have present: "1 \<le> (103::int) \<and> (\<exists>j \<in> set (jobs ?s3). pid j = 103)"
    by (simp add: three_jobs_state)
  have small: "\<not> (\<exists>j \<in> set (jobs ?s3). 2147483647 \<le> jid j)"
    by (simp add: three_jobs_state zero_job_fields)
  have largest: "nextjid (run Tsh (init_state Tsh False)
        [Add 101 BG ''a'', Add 102 BG ''b'', Add 103 BG ''c'', Remove 103]) = 3"
    using three_jobs_state
    by (simp add: run_def deletejob_def maxjid_def maxjid_loop_replicate_zero int32_def)
  from deletejob_recomputes_counter
    [of 103 ?s3 Tsh 101 102 103 102 False BG "''a''" BG "''b''" BG "''c''" FG "''d''"]
  have "fst (deletejob Tsh ?s3 103) = 1"
    and "(let s3 = ?s3; s4 = run Tsh s3 [Remove 102]; s5 = run Tsh s4 [Add 102 FG ''d'']
          in nextjid s4 = 4
             \<and> map slot (take 3 (jobs s5)) = [(101, 1, BG), (102, 4, FG), (103, 3, BG)])"
    using d present by (auto simp: Let_def)
  then show ?thesis using present small largest by (simp add: run_def Let_def)
qed

subsection \<open>Uniqueness of job ids\<close>

text \<open>
  Claim C6. The counter goes back to 1 in \<^verbatim>\<open>addjob\<close> without a look at the ids in use.
  In tsh.c, fifteen jobs get the ids 1 to 15; deleting the second leaves the counter at
  16; the next job gets id 16 and the counter goes back to 1; the job after it gets id 1
  while the first job still has it. Slots 0 and 15 are then both occupied (pids 101 and
  117) with job id 1.
\<close>

theorem job_ids_collide_after_wrap:
  "(let s = run Tsh (init_state Tsh False)
              (map (\<lambda>i. Add i BG ''/bin/sleep 100 &'') [101..115]
               @ [Remove 102, Add 116 BG ''/bin/sleep 100 &'', Add 117 BG ''/bin/sleep 100 &''])
    in map (\<lambda>j. (pid j, jid j)) [jobs s ! 0, jobs s ! 15]) = [(101, 1), (117, 1)]"
  by code_simp

section \<open>Properties of the pipeline builder\<close>

text \<open>
  Claim C7. On the tokens \<^verbatim>\<open>sort < in.txt > out.txt\<close>, from the builder state of the first
  line and from the state \<^verbatim>\<open>reset_variables\<close> leaves before every later line,
  \<^verbatim>\<open>parse_tokens\<close> yields one stage whose argument vector is \<^verbatim>\<open>sort\<close> alone, with input
  file \<^verbatim>\<open>in.txt\<close> and output file \<^verbatim>\<open>out.txt\<close>: both operators are overwritten with
  \<^verbatim>\<open>NULL\<close> in the array, which cuts them and the file names off the argument vector.
\<close>

theorem parse_tokens_redirections:
  "(\<exists>r. parse_tokens [Some ''sort'', Some ''<'', Some ''in.txt'', Some ''>'', Some ''out.txt'', None]
           initial_builder = Some r
        \<and> stages r = [([''sort''], Some ''in.txt'', Some ''out.txt'')]
        \<and> fst r = [Some ''sort'', None, Some ''in.txt'', None, Some ''out.txt'', None])
   \<and> (\<exists>r. parse_tokens [Some ''sort'', Some ''<'', Some ''in.txt'', Some ''>'', Some ''out.txt'', None]
           (reset_variables b) = Some r
        \<and> stages r = [([''sort''], Some ''in.txt'', Some ''out.txt'')]
        \<and> fst r = [Some ''sort'', None, Some ''in.txt'', None, Some ''out.txt'', None])"
  by (simp add: parse_tokens_def parse_loop.simps initial_builder_def reset_variables_def
      IN_REDIR_def OUT_REDIR_def PIPE_def AMPERSAND_def stages_def stage_argv_def)

text \<open>
  Claim C8. On the tokens \<^verbatim>\<open>ls | wc -l\<close>, \<^verbatim>\<open>parse_tokens\<close> yields two stages with the
  argument vectors \<^verbatim>\<open>ls\<close> and \<^verbatim>\<open>wc -l\<close>, no input or output file on either, and sets
  the mode to \<^verbatim>\<open>FG\<close>.
\<close>

theorem parse_tokens_two_stage_pipe:
  "(\<exists>r. parse_tokens [Some ''ls'', Some ''|'', Some ''wc'', Some ''-l'', None] initial_builder = Some r
        \<and> stages r = [([''ls''], None, None), ([''wc'', ''-l''], None, None)]
        \<and> mode (snd r) = FG)
   \<and> (\<exists>r. parse_tokens [Some ''ls'', Some ''|'', Some ''wc'', Some ''-l'', None] (reset_variables b) = Some r
        \<and> stages r = [([''ls''], None, None), ([''wc'', ''-l''], None, None)]
        \<and> mode (snd r) = FG)"
  by (simp add: parse_tokens_def parse_loop.simps initial_builder_def reset_variables_def
      IN_REDIR_def OUT_REDIR_def PIPE_def AMPERSAND_def stages_def stage_argv_def)

section \<open>Properties of the SIGCHLD handler\<close>

lemma find_slot_None: "(find_slot P js = None) = (\<forall>j \<in> set js. \<not> P j)"
  by (induction js) (auto split: option.splits)

text \<open>A stopped or killed child without a job record ends the handler in the fault.\<close>

lemma sigchld_handler_null_job:
  "0 < p \<Longrightarrow> getjobpid (jobs s) p = None \<Longrightarrow>
     sigchld_handler sh s ((p, WStopped sig) # rest) = Inl NullDereference
     \<and> sigchld_handler sh s ((p, WSignaled sig) # rest) = Inl NullDereference"
  by (simp add: sigchld_reap_def)

text \<open>
  Claim C2. The handler does not treat a reaped pid without a job record as a no-op in
  the stopped and the terminated-by-signal branches: it goes through the \<^verbatim>\<open>NULL\<close> that
  \<^verbatim>\<open>getjobpid\<close> returned. In tsh.c, with sixteen jobs in the table the seventeenth child
  (pid 117) is not recorded; when it is stopped or killed the handler faults. The same
  holds in either shell for a child reaped while the table is empty.
\<close>

theorem sigchld_handler_untracked_child_faults:
  "sigchld_handler Tsh
      (run Tsh (init_state Tsh False) (map (\<lambda>i. Add i BG ''/bin/sleep 100 &'') [101..117]))
      [(117, WStopped SIGTSTP)] = Inl NullDereference
   \<and> sigchld_handler Tsh
      (run Tsh (init_state Tsh False) (map (\<lambda>i. Add i BG ''/bin/sleep 100 &'') [101..117]))
      [(117, WSignaled 9)] = Inl NullDereference
   \<and> sigchld_handler sh (init_state sh v) [(4242, WStopped SIGTSTP)] = Inl NullDereference
   \<and> sigchld_handler sh (init_state sh v) [(4242, WSignaled 9)] = Inl NullDereference"
proof -
  have a: "getjobpid (jobs (run Tsh (init_state Tsh False)
             (map (\<lambda>i. Add i BG ''/bin/sleep 100 &'') [101..117]))) 117 = None"
    by code_simp
  have b: "getjobpid (jobs (init_state sh v)) 4242 = None"
    by (simp add: getjobpid_def find_slot_None jobs_init_state zero_job_fields)
  show ?thesis
    using sigchld_handler_null_job[OF _ a] sigchld_handler_null_job[OF _ b] by simp
qed

text \<open>
  Claim C9. For a child stopped by \<^verbatim>\<open>SIGSTOP\<close> (19) the handler sets the job's state to
  \<^verbatim>\<open>ST\<close> and prints the line with the number of \<^verbatim>\<open>SIGTSTP\<close> (20), which the source
  passes to \<^verbatim>\<open>printf\<close> in place of the signal in the status.
\<close>

theorem sigchld_handler_reports_SIGTSTP_for_any_stop:
  "sigchld_handler sh (run sh (init_state sh v) [Add 4242 FG ''/bin/cat'']) [(4242, WStopped SIGSTOP)] =
     Inr ((run sh (init_state sh v) [Add 4242 FG ''/bin/cat''])
            \<lparr>jobs := (jobs (run sh (init_state sh v) [Add 4242 FG ''/bin/cat'']))
               [0 := \<lparr>pid = 4242, jid = 1, state = ST, cmdline = ''/bin/cat''\<rparr>]\<rparr>,
          [''Job [1] (4242) stopped by signal 20'' @ nl])
   \<and> dec SIGSTOP = ''19''"
proof -
  obtain k where k: "jobs (init_state sh v) =
      zero_job # zero_job # zero_job # zero_job # replicate k zero_job"
    using init_state_four_slots by blast
  have d: "dec 1 = ''1''" "dec 4242 = ''4242''" "dec 20 = ''20''" "dec 19 = ''19''"
    by (simp_all add: dec_def digits10.simps)
  show ?thesis
    by (simp add: run_def addjob_def k sigchld_reap_def getjobpid_def pid2jid_def Let_def
        zero_job_def nextjid_init_state SIGTSTP_def SIGSTOP_def d)
qed

section \<open>Foreground jobs\<close>

text \<open>
  Run without a signal in between, the statements of \<^verbatim>\<open>addjob\<close> leave the state that the
  function \<open>addjob\<close> gives.
\<close>

lemma scan_to_free_slot:
  assumes "f < length (jobs s)" and "pid (jobs s ! f) = 0"
    and "i \<le> f" and "\<forall>k. i \<le> k \<and> k < f \<longrightarrow> pid (jobs s ! k) \<noteq> 0"
  shows "exec sh (Scan i p cmd n md, s) (replicate (f - i + 4) Next) =
     Some (Enter p n md,
           s\<lparr>jobs := (jobs s)[f := (jobs s ! f)\<lparr>pid := p, state := md, jid := nextjid s, cmdline := cmd\<rparr>],
             nextjid := (if int32 (nextjid s + 1) > MAXJOBS sh then 1 else int32 (nextjid s + 1))\<rparr>)"
  using assms
proof (induction "f - i" arbitrary: i)
  case 0
  then have "i = f" by simp
  with 0 show ?case by (simp add: numeral_eq_Suc)
next
  case (Suc d)
  then have lt: "i < f" and occ: "pid (jobs s ! i) \<noteq> 0" and il: "i < length (jobs s)" by auto
  have "f - i + 4 = Suc (f - Suc i + 4)" using lt by simp
  moreover have "exec sh (Scan (Suc i) p cmd n md, s) (replicate (f - Suc i + 4) Next) =
     Some (Enter p n md,
           s\<lparr>jobs := (jobs s)[f := (jobs s ! f)\<lparr>pid := p, state := md, jid := nextjid s, cmdline := cmd\<rparr>],
             nextjid := (if int32 (nextjid s + 1) > MAXJOBS sh then 1 else int32 (nextjid s + 1))\<rparr>)"
    using Suc.prems Suc.hyps(2) lt by (intro Suc.hyps(1)) auto
  ultimately show ?case using occ il by simp
qed

lemma scan_full_table:
  assumes "i \<le> length (jobs s)" and "\<forall>k. i \<le> k \<and> k < length (jobs s) \<longrightarrow> pid (jobs s ! k) \<noteq> 0"
  shows "exec sh (Scan i p cmd n md, s) (replicate (length (jobs s) - i + 1) Next) =
     Some (Enter p n md, s)"
  using assms
proof (induction "length (jobs s) - i" arbitrary: i)
  case 0
  then show ?case by simp
next
  case (Suc d)
  then have il: "i < length (jobs s)" and occ: "pid (jobs s ! i) \<noteq> 0" by auto
  have "length (jobs s) - i + 1 = Suc (length (jobs s) - Suc i + 1)" using il by simp
  moreover have "exec sh (Scan (Suc i) p cmd n md, s) (replicate (length (jobs s) - Suc i + 1) Next) =
     Some (Enter p n md, s)"
    using Suc.prems Suc.hyps(2) il by (intro Suc.hyps(1)) auto
  ultimately show ?case using occ il by simp
qed

lemma addjob_statement_by_statement:
  assumes "1 \<le> p"
  shows "\<exists>k. exec sh (Scan 0 p cmd n md, s) (replicate k Next) =
              Some (Enter p n md, fst (snd (addjob sh s p md cmd)))"
proof (cases "addjob_loop sh (verbose s) (nextjid s) (jobs s) p md cmd")
  case None
  then have full: "\<forall>j \<in> set (jobs s). pid j \<noteq> 0" by (simp add: addjob_loop_None)
  have "addjob sh s p md cmd = (0, s, [''Tried to create too many jobs'' @ nl])"
    using None assms by (simp add: addjob_def)
  moreover have "exec sh (Scan 0 p cmd n md, s) (replicate (length (jobs s) - 0 + 1) Next) =
     Some (Enter p n md, s)"
    using full by (intro scan_full_table) auto
  ultimately show ?thesis by (metis fst_conv snd_conv)
next
  case (Some r)
  obtain js' nj' out where r: "r = (js', nj', out)" by (cases r) auto
  from addjob_loop_Some[OF Some[unfolded r]] obtain f where f: "f < length (jobs s)"
      "pid (jobs s ! f) = 0" "\<forall>k < f. pid (jobs s ! k) \<noteq> 0"
      "js' = (jobs s)[f := (jobs s ! f)\<lparr>pid := p, state := md, jid := nextjid s, cmdline := cmd\<rparr>]"
      "nj' = (if int32 (nextjid s + 1) > MAXJOBS sh then 1 else int32 (nextjid s + 1))"
    by blast
  have "fst (snd (addjob sh s p md cmd)) = s\<lparr>jobs := js', nextjid := nj'\<rparr>"
    using Some r assms by (simp add: addjob_def)
  moreover have "exec sh (Scan 0 p cmd n md, s) (replicate (f - 0 + 4) Next) =
     Some (Enter p n md, s\<lparr>jobs := js', nextjid := nj'\<rparr>)"
    unfolding f(4,5) using f(1,2,3) by (intro scan_to_free_slot) auto
  ultimately show ?thesis by metis
qed

text \<open>
  Claim C1. The job table does not keep to one record with state \<^verbatim>\<open>FG\<close>.

  In tsh.c, with the background jobs 301 and 302: \<^verbatim>\<open>fg %1\<close> is typed and \<^verbatim>\<open>do_bgfg\<close>
  finds slot 0; job 301 exits and the handler clears slot 0; \<^verbatim>\<open>do_bgfg\<close> stores \<^verbatim>\<open>FG\<close>
  into the cleared slot and \<^verbatim>\<open>waitfg(0)\<close> returns. Then \<^verbatim>\<open>fg %2\<close> makes job 302 \<^verbatim>\<open>FG\<close>,
  and \<^verbatim>\<open>waitfg(302)\<close> returns at its first test because \<^verbatim>\<open>fgpid\<close> finds slot 0 first and
  returns 0. The next foreground command (pid 303) takes slot 0: slots 0 and 1 are both
  occupied and both \<^verbatim>\<open>FG\<close>.

  In hfsh.cpp, with the background job 401 in slot 0: a foreground child 402 exits after
  \<^verbatim>\<open>addjob\<close> has stored its pid in slot 1 and before it stores the state; the handler
  clears slot 1, and \<^verbatim>\<open>addjob\<close> goes on to store \<^verbatim>\<open>FG\<close> and job id 2 into it. After job
  401 has exited, the next foreground command (pid 403) takes slot 0: the records of
  slots 0 and 1 both have state \<^verbatim>\<open>FG\<close>, the second in a free slot.
\<close>

theorem two_foreground_jobs_reachable:
  "map_option (\<lambda>(c, s). (c, map slot (take 3 (jobs s)),
                           length (filter (\<lambda>j. state j = FG) (jobs s))))
     (exec Tsh (start Tsh False)
        [Command 1 BG, Forked 301 ''/bin/sleep 1 &'', Next,
         Command 1 BG, Forked 302 ''/bin/sleep 100 &'', Next,
         Bgfg True (JobId ''%1'' 1), Sigchld [(301, WExited 0)], Next,
         Bgfg True (JobId ''%2'' 2), Next, Poll,
         Command 1 FG, Forked 303 ''/bin/cat'', Next])
   = Some (Waiting 303 0 FG, [(303, 3, FG), (302, 2, FG), (0, 0, UNDEF)], 2)
   \<and> map_option (\<lambda>(c, s). (c, map slot (take 3 (jobs s)),
                           length (filter (\<lambda>j. state j = FG) (jobs s))))
     (exec Hfsh (start Hfsh False)
        [Command 1 BG, Forked 401 ''sleep 1 &'', Next, Next, Next, Next, Next,
         Command 1 FG, Forked 402 ''nosuchprogram'', Next, Next,
         Sigchld [(402, WExited 1)], Next, Next, Next, Next,
         Sigchld [(401, WExited 0)],
         Command 1 FG, Forked 403 ''cat'', Next, Next, Next, Next, Next])
   = Some (Waiting 403 0 FG, [(403, 3, FG), (0, 2, FG), (0, 0, UNDEF)], 2)"
  by code_simp

end
